theory Spec2Isabelle
  imports
    Complex_Main
    "HOL-Library.Multiset"
    "HOL-Library.Char_ord"
    "HOL-Library.List_Lexorder"
    "HOL-Library.Product_Lexorder"
begin

section \<open>The Polars tutorial notebook\<close>

text \<open>
  The program is the notebook \<^verbatim>\<open>EF01 - Polars Tutorial.ipynb\<close>: twenty-three
  code cells, each a chain of calls into the dataframe library and the charting library.
  The cells are embedded one by one in the second half of this theory. The first half
  gives the library the cells call: the dataframe as a value, the expressions the cells
  build, and the frame operations, each with the behaviour the library documents for
  the arguments the notebook passes (defaults included).

  Generation values are 64-bit floats in the library and exact rationals here; every
  finite float is a rational, and rounding of sums and means is outside the model.
\<close>

subsection \<open>Cells, dtypes and frames\<close>

datatype dtype = Boolean | Int64 | Float64 | Utf8 | Date | Datetime

text \<open>
  A cell of a column. \<open>VDate\<close> counts days and \<open>VDatetime\<close> microseconds since
  the epoch, as the library stores them. \<open>Null\<close> is the missing value of any dtype.
\<close>

datatype cell = Null | VBool bool | VInt int | VFloat rat | VStr string | VDate int | VDatetime int

fun has_dtype :: "dtype \<Rightarrow> cell \<Rightarrow> bool" where
  "has_dtype t Null = True"
| "has_dtype t (VBool b) = (t = Boolean)"
| "has_dtype t (VInt i) = (t = Int64)"
| "has_dtype t (VFloat x) = (t = Float64)"
| "has_dtype t (VStr s) = (t = Utf8)"
| "has_dtype t (VDate d) = (t = Date)"
| "has_dtype t (VDatetime u) = (t = Datetime)"

text \<open>
  The order the library sorts by: nulls first (\<open>nulls_last=False\<close>), then the values
  of the column's dtype in their natural order; strings compare byte by byte. Cells of
  different dtypes never meet in one column; the key puts them in the order of the
  constructors so that the order is total.
\<close>

fun cell_key :: "cell \<Rightarrow> nat \<times> int \<times> rat \<times> string" where
  "cell_key Null = (0, 0, 0, [])"
| "cell_key (VBool b) = (1, (if b then 1 else 0), 0, [])"
| "cell_key (VInt i) = (2, i, 0, [])"
| "cell_key (VFloat x) = (3, 0, x, [])"
| "cell_key (VStr s) = (4, 0, 0, s)"
| "cell_key (VDate d) = (5, d, 0, [])"
| "cell_key (VDatetime u) = (6, u, 0, [])"

instantiation cell :: linorder
begin

definition less_eq_cell :: "cell \<Rightarrow> cell \<Rightarrow> bool" where
  "less_eq_cell a b \<longleftrightarrow> cell_key a \<le> cell_key b"

definition less_cell :: "cell \<Rightarrow> cell \<Rightarrow> bool" where
  "less_cell a b \<longleftrightarrow> cell_key a < cell_key b"

instance
proof
  fix x y z :: cell
  show "x < y \<longleftrightarrow> x \<le> y \<and> \<not> y \<le> x"
    unfolding less_eq_cell_def less_cell_def by (rule less_le_not_le)
  show "x \<le> x"
    unfolding less_eq_cell_def by simp
  show "x \<le> y \<Longrightarrow> y \<le> z \<Longrightarrow> x \<le> z"
    unfolding less_eq_cell_def by (rule order_trans)
  show "x \<le> y \<Longrightarrow> y \<le> x \<Longrightarrow> x = y"
  proof -
    assume "x \<le> y" and "y \<le> x"
    then have "cell_key x = cell_key y"
      unfolding less_eq_cell_def by (rule antisym)
    then show "x = y"
      by (cases x; cases y) (auto split: if_splits)
  qed
  show "x \<le> y \<or> y \<le> x"
    unfolding less_eq_cell_def by (rule linear)
qed

end

type_synonym row = "cell list"
type_synonym schema = "(string \<times> dtype) list"

text \<open>
  A dataframe: named, typed columns and the rows under them. \<open>wf_frame\<close> is the
  library's own invariant: column names are distinct and every row has one cell of the
  right dtype (or null) per column.
\<close>

record frame =
  schema :: schema
  rows :: "row list"

definition columns :: "frame \<Rightarrow> string list" where
  "columns df = map fst (schema df)"

definition dtypes :: "frame \<Rightarrow> dtype list" where
  "dtypes df = map snd (schema df)"

definition height :: "frame \<Rightarrow> nat" where
  "height df = length (rows df)"

definition wf_row :: "schema \<Rightarrow> row \<Rightarrow> bool" where
  "wf_row sch r \<longleftrightarrow> list_all2 has_dtype (map snd sch) r"

definition wf_frame :: "frame \<Rightarrow> bool" where
  "wf_frame df \<longleftrightarrow> distinct (columns df) \<and> list_all (wf_row (schema df)) (rows df)"

text \<open>The cell of row \<open>r\<close> under column \<open>n\<close>.\<close>

definition cell_of :: "schema \<Rightarrow> string \<Rightarrow> row \<Rightarrow> cell" where
  "cell_of sch n r = (case map_of (zip (map fst sch) r) n of Some c \<Rightarrow> c | None \<Rightarrow> Null)"

definition key_of :: "schema \<Rightarrow> string list \<Rightarrow> row \<Rightarrow> cell list" where
  "key_of sch ks r = map (\<lambda>k. cell_of sch k r) ks"

subsection \<open>Errors\<close>

text \<open>
  The exceptions the two libraries and the file system raise, as values. The notebook
  defines none of its own.
\<close>

datatype error =
    FileNotFound string
  | NotAWorkbook string
  | PermissionDenied string
  | ColumnNotFound string
  | DuplicateColumn "string list"
  | InvalidOperation string
  | ValueError string
  | NameError string

definition and_then :: "error + 'a \<Rightarrow> ('a \<Rightarrow> error + 'b) \<Rightarrow> error + 'b" where
  "and_then r f = (case r of Inl e \<Rightarrow> Inl e | Inr x \<Rightarrow> f x)"

definition dtype_of :: "schema \<Rightarrow> string \<Rightarrow> error + dtype" where
  "dtype_of sch n = (case map_of sch n of Some t \<Rightarrow> Inr t | None \<Rightarrow> Inl (ColumnNotFound n))"

fun dtypes_of :: "schema \<Rightarrow> string list \<Rightarrow> error + dtype list" where
  "dtypes_of sch [] = Inr []"
| "dtypes_of sch (n # ns) =
     and_then (dtype_of sch n) (\<lambda>t. and_then (dtypes_of sch ns) (\<lambda>ts. Inr (t # ts)))"

subsection \<open>Expressions\<close>

text \<open>
  The element-wise expressions the notebook builds:
  \<^verbatim>\<open>pl.col(n)\<close>, \<^verbatim>\<open>e * 1000\<close>, \<^verbatim>\<open>e == "Thermal"\<close>, \<^verbatim>\<open>e > 10\<close>,
  \<^verbatim>\<open>e.dt.hour()\<close> and \<^verbatim>\<open>e.dt.date()\<close>. The library checks an expression
  against the schema before it touches a row (\<open>expr_dtype\<close>), then computes it row by
  row (\<open>eval_expr\<close>); a null operand gives a null result.
\<close>

datatype expr =
    Col string
  | MulLit expr int
  | EqLit expr string
  | GtLit expr int
  | DtHour expr
  | DtDate expr

fun root_name :: "expr \<Rightarrow> string" where
  "root_name (Col n) = n"
| "root_name (MulLit e k) = root_name e"
| "root_name (EqLit e s) = root_name e"
| "root_name (GtLit e k) = root_name e"
| "root_name (DtHour e) = root_name e"
| "root_name (DtDate e) = root_name e"

definition numeric :: "dtype \<Rightarrow> bool" where
  "numeric t \<longleftrightarrow> t = Int64 \<or> t = Float64"

fun expr_dtype :: "schema \<Rightarrow> expr \<Rightarrow> error + dtype" where
  "expr_dtype sch (Col n) = dtype_of sch n"
| "expr_dtype sch (MulLit e k) =
     and_then (expr_dtype sch e)
       (\<lambda>t. if numeric t then Inr t else Inl (InvalidOperation ''mul''))"
| "expr_dtype sch (EqLit e s) =
     and_then (expr_dtype sch e)
       (\<lambda>t. if t = Utf8 then Inr Boolean else Inl (InvalidOperation ''eq''))"
| "expr_dtype sch (GtLit e k) =
     and_then (expr_dtype sch e)
       (\<lambda>t. if numeric t then Inr Boolean else Inl (InvalidOperation ''gt''))"
| "expr_dtype sch (DtHour e) =
     and_then (expr_dtype sch e)
       (\<lambda>t. if t = Datetime then Inr Int64 else Inl (InvalidOperation ''hour''))"
| "expr_dtype sch (DtDate e) =
     and_then (expr_dtype sch e)
       (\<lambda>t. if t = Datetime \<or> t = Date then Inr Date else Inl (InvalidOperation ''date''))"

definition hour_of :: "int \<Rightarrow> int" where
  "hour_of u = (u div 3600000000) mod 24"

definition date_of :: "int \<Rightarrow> int" where
  "date_of u = u div 86400000000"

fun mul_cell :: "int \<Rightarrow> cell \<Rightarrow> cell" where
  "mul_cell k (VFloat x) = VFloat (x * of_int k)"
| "mul_cell k (VInt i) = VInt (i * k)"
| "mul_cell k c = Null"

fun eq_cell :: "string \<Rightarrow> cell \<Rightarrow> cell" where
  "eq_cell s (VStr x) = VBool (x = s)"
| "eq_cell s c = Null"

fun gt_cell :: "int \<Rightarrow> cell \<Rightarrow> cell" where
  "gt_cell k (VFloat x) = VBool (x > of_int k)"
| "gt_cell k (VInt i) = VBool (i > k)"
| "gt_cell k c = Null"

fun hour_cell :: "cell \<Rightarrow> cell" where
  "hour_cell (VDatetime u) = VInt (hour_of u)"
| "hour_cell c = Null"

fun date_cell :: "cell \<Rightarrow> cell" where
  "date_cell (VDatetime u) = VDate (date_of u)"
| "date_cell (VDate d) = VDate d"
| "date_cell c = Null"

fun eval_expr :: "schema \<Rightarrow> expr \<Rightarrow> row \<Rightarrow> cell" where
  "eval_expr sch (Col n) r = cell_of sch n r"
| "eval_expr sch (MulLit e k) r = mul_cell k (eval_expr sch e r)"
| "eval_expr sch (EqLit e s) r = eq_cell s (eval_expr sch e r)"
| "eval_expr sch (GtLit e k) r = gt_cell k (eval_expr sch e r)"
| "eval_expr sch (DtHour e) r = hour_cell (eval_expr sch e r)"
| "eval_expr sch (DtDate e) r = date_cell (eval_expr sch e r)"

subsection \<open>Aggregations\<close>

text \<open>
  \<^verbatim>\<open>.sum()\<close>, \<^verbatim>\<open>.mean()\<close>, \<^verbatim>\<open>.count()\<close> and \<^verbatim>\<open>.max()\<close> reduce the
  cells of one group to one cell. All four skip nulls; the sum of no value is zero, the
  mean and the maximum of no value are null.
\<close>

datatype aggfn = AggSum | AggMean | AggCount | AggMax

fun num_of :: "cell \<Rightarrow> rat option" where
  "num_of (VFloat x) = Some x"
| "num_of (VInt i) = Some (of_int i)"
| "num_of c = None"

fun int_of :: "cell \<Rightarrow> int option" where
  "int_of (VInt i) = Some i"
| "int_of c = None"

definition nums :: "cell list \<Rightarrow> rat list" where
  "nums cs = List.map_filter num_of cs"

definition mean_cell :: "cell list \<Rightarrow> cell" where
  "mean_cell cs =
     (let xs = nums cs in if xs = [] then Null else VFloat (sum_list xs / of_nat (length xs)))"

fun agg_dtype :: "aggfn \<Rightarrow> dtype \<Rightarrow> error + dtype" where
  "agg_dtype AggSum t = (if numeric t then Inr t else Inl (InvalidOperation ''sum''))"
| "agg_dtype AggMean t = (if numeric t then Inr Float64 else Inl (InvalidOperation ''mean''))"
| "agg_dtype AggCount t = Inr Int64"
| "agg_dtype AggMax t = Inr t"

fun agg_cells :: "aggfn \<Rightarrow> dtype \<Rightarrow> cell list \<Rightarrow> cell" where
  "agg_cells AggSum t cs =
     (if t = Int64 then VInt (sum_list (List.map_filter int_of cs))
      else VFloat (sum_list (nums cs)))"
| "agg_cells AggMean t cs = mean_cell cs"
| "agg_cells AggCount t cs = VInt (int (length (filter (\<lambda>c. c \<noteq> Null) cs)))"
| "agg_cells AggMax t cs =
     (case filter (\<lambda>c. c \<noteq> Null) cs of [] \<Rightarrow> Null | c # cs' \<Rightarrow> fold max cs' c)"

text \<open>
  An aggregation of an expression, checked against the schema: the dtype of the result
  and the function from the rows of a group to the aggregated cell.
\<close>

definition agg_plan :: "schema \<Rightarrow> aggfn \<Rightarrow> expr \<Rightarrow> error + (dtype \<times> (row list \<Rightarrow> cell))" where
  "agg_plan sch f e =
     and_then (expr_dtype sch e) (\<lambda>t.
     and_then (agg_dtype f t) (\<lambda>t'.
       Inr (t', \<lambda>grp. agg_cells f t (map (eval_expr sch e) grp))))"

subsection \<open>Column expressions\<close>

text \<open>
  What \<^verbatim>\<open>select\<close> and \<^verbatim>\<open>with_columns\<close> take: an element-wise expression, a window
  aggregation \<^verbatim>\<open>e.agg().over(keys)\<close> (every row gets the aggregate of the rows that
  share its key), or \<^verbatim>\<open>e.rolling_mean(n)\<close>; each with or without \<^verbatim>\<open>.alias(name)\<close>.
  Without an alias the column keeps the name of the column the expression starts from.
\<close>

datatype colexpr = Elem expr | Over aggfn expr "string list" | RollingMean expr nat

datatype item = Alias colexpr string | Plain colexpr

fun colexpr_root :: "colexpr \<Rightarrow> string" where
  "colexpr_root (Elem e) = root_name e"
| "colexpr_root (Over f e ks) = root_name e"
| "colexpr_root (RollingMean e n) = root_name e"

fun item_name :: "item \<Rightarrow> string" where
  "item_name (Alias c n) = n"
| "item_name (Plain c) = colexpr_root c"

fun item_expr :: "item \<Rightarrow> colexpr" where
  "item_expr (Alias c n) = c"
| "item_expr (Plain c) = c"

text \<open>
  \<^verbatim>\<open>rolling_mean(window_size)\<close> with the defaults \<open>weights=None\<close>,
  \<open>min_samples=None\<close> (that is, \<open>window_size\<close>) and \<open>center=False\<close>: the cell of
  row \<open>i\<close> is the mean of the \<open>n\<close> cells ending at row \<open>i\<close>, and null while fewer
  than \<open>n\<close> non-null cells are in that window. \<open>pre\<close> is the column up to and
  including row \<open>i\<close>.
\<close>

definition window_mean :: "nat \<Rightarrow> cell list \<Rightarrow> cell" where
  "window_mean n pre =
     (if length pre < n then Null
      else let w = drop (length pre - n) pre in
        if Null \<in> set w then Null else mean_cell w)"

definition rolling_mean :: "nat \<Rightarrow> cell list \<Rightarrow> cell list" where
  "rolling_mean n vs = map (\<lambda>i. window_mean n (take (Suc i) vs)) [0..<length vs]"

fun eval_col :: "frame \<Rightarrow> colexpr \<Rightarrow> error + (dtype \<times> cell list)" where
  "eval_col df (Elem e) =
     and_then (expr_dtype (schema df) e) (\<lambda>t.
       Inr (t, map (eval_expr (schema df) e) (rows df)))"
| "eval_col df (Over f e ks) =
     and_then (agg_plan (schema df) f e) (\<lambda>(t, agg).
     and_then (dtypes_of (schema df) ks) (\<lambda>kts.
       Inr (t, map (\<lambda>r. agg (filter (\<lambda>r'. key_of (schema df) ks r' = key_of (schema df) ks r)
                              (rows df))) (rows df))))"
| "eval_col df (RollingMean e n) =
     and_then (expr_dtype (schema df) e) (\<lambda>t.
       if numeric t \<and> 0 < n
       then Inr (Float64, rolling_mean n (map (eval_expr (schema df) e) (rows df)))
       else Inl (InvalidOperation ''rolling_mean''))"

type_synonym series = "string \<times> dtype \<times> cell list"

definition eval_item :: "frame \<Rightarrow> item \<Rightarrow> error + series" where
  "eval_item df it =
     and_then (eval_col df (item_expr it)) (\<lambda>(t, vs). Inr (item_name it, t, vs))"

fun collect :: "(error + 'a) list \<Rightarrow> error + 'a list" where
  "collect [] = Inr []"
| "collect (r # rs) = and_then r (\<lambda>x. and_then (collect rs) (\<lambda>xs. Inr (x # xs)))"

subsection \<open>Frame operations\<close>

text \<open>
  Every operation takes a frame and returns a new one (or an error); none changes its
  argument. Three of them leave the order of the rows they return open, because the
  notebook calls them with the default \<open>maintain_order=False\<close>: \<^verbatim>\<open>group_by\<close>
  (order of the groups), \<^verbatim>\<open>unique\<close> (order of the distinct rows) and \<^verbatim>\<open>sort\<close>
  (order of rows with equal keys). The engine's choice is the parameter \<open>\<pi>\<close>, some
  rearrangement of a list of rows; \<open>arranges \<pi>\<close> says that it only rearranges.
\<close>

type_synonym arrangement = "row list \<Rightarrow> row list"

definition arranges :: "arrangement \<Rightarrow> bool" where
  "arranges \<pi> \<longleftrightarrow> (\<forall>rs. mset (\<pi> rs) = mset rs)"

definition series_name :: "series \<Rightarrow> string" where
  "series_name s = fst s"

definition series_dtype :: "series \<Rightarrow> dtype" where
  "series_dtype s = fst (snd s)"

definition series_values :: "series \<Rightarrow> cell list" where
  "series_values s = snd (snd s)"

definition from_series :: "nat \<Rightarrow> series list \<Rightarrow> frame" where
  "from_series n ss =
     \<lparr>schema = map (\<lambda>s. (series_name s, series_dtype s)) ss,
      rows = map (\<lambda>i. map (\<lambda>s. series_values s ! i) ss) [0..<n]\<rparr>"

definition select :: "item list \<Rightarrow> frame \<Rightarrow> error + frame" where
  "select its df =
     and_then (collect (map (eval_item df) its)) (\<lambda>ss.
       if distinct (map series_name ss) then Inr (from_series (height df) ss)
       else Inl (DuplicateColumn (map series_name ss)))"

definition index_of :: "string \<Rightarrow> string list \<Rightarrow> nat" where
  "index_of n ns = length (takeWhile (\<lambda>m. m \<noteq> n) ns)"

text \<open>A computed column replaces the column of its name, or is appended as a new last column.\<close>

definition put_field :: "schema \<Rightarrow> string \<Rightarrow> dtype \<Rightarrow> schema" where
  "put_field sch n t =
     (if n \<in> set (map fst sch) then sch[index_of n (map fst sch) := (n, t)] else sch @ [(n, t)])"

definition put_cell :: "string list \<Rightarrow> string \<Rightarrow> row \<Rightarrow> cell \<Rightarrow> row" where
  "put_cell ns n r v = (if n \<in> set ns then r[index_of n ns := v] else r @ [v])"

definition put_column :: "frame \<Rightarrow> series \<Rightarrow> frame" where
  "put_column df s =
     \<lparr>schema = put_field (schema df) (series_name s) (series_dtype s),
      rows = map2 (put_cell (columns df) (series_name s)) (rows df) (series_values s)\<rparr>"

definition with_columns :: "item list \<Rightarrow> frame \<Rightarrow> error + frame" where
  "with_columns its df =
     and_then (collect (map (eval_item df) its)) (\<lambda>ss.
       if distinct (map series_name ss) then Inr (foldl put_column df ss)
       else Inl (DuplicateColumn (map series_name ss)))"

definition rename :: "(string \<times> string) list \<Rightarrow> frame \<Rightarrow> error + frame" where
  "rename mapping df =
     (case filter (\<lambda>k. k \<notin> set (columns df)) (map fst mapping) of
        k # ks \<Rightarrow> Inl (ColumnNotFound k)
      | [] \<Rightarrow>
          let new = map (\<lambda>(n, t). ((case map_of mapping n of Some n' \<Rightarrow> n' | None \<Rightarrow> n), t))
                      (schema df) in
          if distinct (map fst new) then Inr (df\<lparr>schema := new\<rparr>)
          else Inl (DuplicateColumn (map fst new)))"

definition filter_df :: "expr \<Rightarrow> frame \<Rightarrow> error + frame" where
  "filter_df p df =
     and_then (expr_dtype (schema df) p) (\<lambda>t.
       if t = Boolean
       then Inr (df\<lparr>rows := filter (\<lambda>r. eval_expr (schema df) p r = VBool True) (rows df)\<rparr>)
       else Inl (InvalidOperation ''filter''))"

definition sort_df :: "arrangement \<Rightarrow> string list \<Rightarrow> frame \<Rightarrow> error + frame" where
  "sort_df \<pi> ks df =
     and_then (dtypes_of (schema df) ks) (\<lambda>kts.
       Inr (df\<lparr>rows := sort_key (key_of (schema df) ks) (\<pi> (rows df))\<rparr>))"

text \<open>\<^verbatim>\<open>sort(by, descending=True)\<close> on one column: nulls stay first, the rest descends.\<close>

definition sort_descending :: "arrangement \<Rightarrow> string \<Rightarrow> frame \<Rightarrow> error + frame" where
  "sort_descending \<pi> k df =
     and_then (dtype_of (schema df) k) (\<lambda>t.
       let rs = \<pi> (rows df) in
       Inr (df\<lparr>rows := filter (\<lambda>r. cell_of (schema df) k r = Null) rs @
                        rev (sort_key (cell_of (schema df) k)
                               (filter (\<lambda>r. cell_of (schema df) k r \<noteq> Null) rs))\<rparr>))"

datatype aggitem = AggAs aggfn expr string

fun agg_name :: "aggitem \<Rightarrow> string" where
  "agg_name (AggAs f e n) = n"

fun agg_item_plan :: "schema \<Rightarrow> aggitem \<Rightarrow> error + (dtype \<times> (row list \<Rightarrow> cell))" where
  "agg_item_plan sch (AggAs f e n) = agg_plan sch f e"

text \<open>
  \<^verbatim>\<open>group_by(keys).agg(aggs)\<close>: one row per distinct key (null is a key like any
  other), holding the key cells and then one aggregated cell per aggregation.
\<close>

definition group_by_agg ::
  "arrangement \<Rightarrow> string list \<Rightarrow> aggitem list \<Rightarrow> frame \<Rightarrow> error + frame" where
  "group_by_agg \<pi> ks aggs df =
     and_then (dtypes_of (schema df) ks) (\<lambda>kts.
     and_then (collect (map (agg_item_plan (schema df)) aggs)) (\<lambda>plans.
       let names = ks @ map agg_name aggs in
       if \<not> distinct names then Inl (DuplicateColumn names)
       else Inr
         \<lparr>schema = zip names (kts @ map fst plans),
          rows = map (\<lambda>k. k @ map (\<lambda>p. snd p (filter (\<lambda>r. key_of (schema df) ks r = k) (rows df)))
                                 plans)
                   (\<pi> (remdups (map (key_of (schema df) ks) (rows df))))\<rparr>))"

definition unique :: "arrangement \<Rightarrow> frame \<Rightarrow> frame" where
  "unique \<pi> df = df\<lparr>rows := \<pi> (remdups (rows df))\<rparr>"

text \<open>The distinct elements of a list in the order of their first occurrence.\<close>

definition first_seen :: "'a list \<Rightarrow> 'a list" where
  "first_seen xs = rev (remdups (rev xs))"

text \<open>
  \<^verbatim>\<open>pivot(on, index, values, aggregate_function)\<close> with the defaults
  \<open>maintain_order=True\<close> and \<open>sort_columns=False\<close>: one row per distinct index
  value and one column per distinct \<open>on\<close> value, both in the order of first
  occurrence; the cell is the aggregate of the \<open>values\<close> of the rows with that index
  and that \<open>on\<close> value. The new columns are named by the \<open>on\<close> values; the model
  covers a string-typed \<open>on\<close> column (the notebook's), whose values are their own
  names and whose null is named \<open>null\<close>.
\<close>

fun column_label :: "cell \<Rightarrow> string" where
  "column_label (VStr s) = s"
| "column_label c = ''null''"

definition pivot :: "string \<Rightarrow> string \<Rightarrow> string \<Rightarrow> aggfn \<Rightarrow> frame \<Rightarrow> error + frame" where
  "pivot values index on f df =
     and_then (dtype_of (schema df) index) (\<lambda>ti.
     and_then (dtype_of (schema df) on) (\<lambda>ton.
     and_then (agg_plan (schema df) f (Col values)) (\<lambda>(tv, agg).
       if ton \<noteq> Utf8 then Inl (InvalidOperation ''pivot'')
       else
         let ons = first_seen (map (cell_of (schema df) on) (rows df));
             names = index # map column_label ons in
         if \<not> distinct names then Inl (DuplicateColumn names)
         else Inr
           \<lparr>schema = (index, ti) # map (\<lambda>c. (column_label c, tv)) ons,
            rows = map (\<lambda>d. d # map (\<lambda>s. agg (filter (\<lambda>r. cell_of (schema df) index r = d \<and>
                                                         cell_of (schema df) on r = s) (rows df)))
                                   ons)
                     (first_seen (map (cell_of (schema df) index) (rows df)))\<rparr>)))"

definition head :: "nat \<Rightarrow> frame \<Rightarrow> frame" where
  "head n df = df\<lparr>rows := take n (rows df)\<rparr>"

subsection \<open>Files and charts\<close>

text \<open>
  The file system the notebook runs in. A file holds a table in one of the three formats
  the notebook reads or writes, or something else. The readers and writers themselves
  are the library's: a file written from a table is a file that encodes that table.
\<close>

datatype format = Csv | Xlsx | Parquet

datatype stored = Encoded format frame | Other

record filesystem =
  files :: "string \<Rightarrow> stored option"
  read_only :: "string list"

definition read_excel :: "filesystem \<Rightarrow> string \<Rightarrow> error + frame" where
  "read_excel w p =
     (case files w p of
        None \<Rightarrow> Inl (FileNotFound p)
      | Some (Encoded Xlsx t) \<Rightarrow> Inr t
      | Some f \<Rightarrow> Inl (NotAWorkbook p))"

definition write_file :: "format \<Rightarrow> string \<Rightarrow> frame \<Rightarrow> filesystem \<Rightarrow> error + filesystem" where
  "write_file fmt p t w =
     (if p \<in> set (read_only w) then Inl (PermissionDenied p)
      else Inr (w\<lparr>files := (files w)(p \<mapsto> Encoded fmt t)\<rparr>))"

definition write_csv :: "string \<Rightarrow> frame \<Rightarrow> filesystem \<Rightarrow> error + filesystem" where
  "write_csv = write_file Csv"

definition write_excel :: "string \<Rightarrow> frame \<Rightarrow> filesystem \<Rightarrow> error + filesystem" where
  "write_excel = write_file Xlsx"

definition write_parquet :: "string \<Rightarrow> frame \<Rightarrow> filesystem \<Rightarrow> error + filesystem" where
  "write_parquet = write_file Parquet"

text \<open>
  \<^verbatim>\<open>px.line\<close> and \<^verbatim>\<open>px.area\<close>: a figure of a frame, with the columns on the axes,
  the column that colours the traces, and the template in force. A column the frame
  does not have is the charting library's \<open>ValueError\<close>.
\<close>

datatype chart = Line | Area

datatype figure = Figure chart frame string string "string option" string

definition px :: "chart \<Rightarrow> frame \<Rightarrow> string \<Rightarrow> string \<Rightarrow> string option \<Rightarrow> string \<Rightarrow> error + figure" where
  "px k t x y color tmpl =
     (case filter (\<lambda>n. n \<notin> set (columns t)) (x # y # (case color of None \<Rightarrow> [] | Some c \<Rightarrow> [c])) of
        n # ns \<Rightarrow> Inl (ValueError n)
      | [] \<Rightarrow> Inr (Figure k t x y color tmpl))"

subsection \<open>The notebook's state\<close>

text \<open>
  What a cell leaves behind: the file system, the plotting template, the five variables
  of the notebook (unbound until their cell has run), and what the cells have read,
  shown and written so far, in order. A cell that ends in an expression shows its
  value; the assignment of a computed table shows nothing and is logged as \<open>Bind\<close>.
\<close>

datatype shown =
    Preview frame
  | Summary frame
  | Dtypes "dtype list"
  | Columns "string list"
  | Schema schema
  | Table frame
  | Fig figure

datatype event =
    ReadFile string
  | Print shown
  | Display shown
  | Bind string frame
  | WriteFile format string frame

record state =
  fs :: filesystem
  template :: string
  data_path :: "string option"
  df :: "frame option"
  generation_df :: "frame option"
  generation_by_hour_source_df :: "frame option"
  output_df :: "frame option"
  outputs :: "event list"

definition initial :: "filesystem \<Rightarrow> state" where
  "initial w =
     \<lparr>fs = w, template = ''plotly'', data_path = None, df = None, generation_df = None,
      generation_by_hour_source_df = None, output_df = None, outputs = []\<rparr>"

definition var :: "string \<Rightarrow> 'a option \<Rightarrow> error + 'a" where
  "var n v = (case v of None \<Rightarrow> Inl (NameError n) | Some x \<Rightarrow> Inr x)"

definition emit :: "event \<Rightarrow> state \<Rightarrow> state" where
  "emit ev s = s\<lparr>outputs := outputs s @ [ev]\<rparr>"

type_synonym step = "arrangement \<Rightarrow> state \<Rightarrow> error + state"

text \<open>A cell whose last expression is a table computed from \<open>df\<close>.\<close>

definition show_table :: "(frame \<Rightarrow> error + frame) \<Rightarrow> state \<Rightarrow> error + state" where
  "show_table f s =
     and_then (var ''df'' (df s)) (\<lambda>t.
     and_then (f t) (\<lambda>r. Inr (emit (Display (Table r)) s)))"

subsection \<open>The transformations of the cells\<close>

abbreviation col :: "string \<Rightarrow> item" where
  "col n \<equiv> Plain (Elem (Col n))"

text \<open>\<^verbatim>\<open>df.select(["Date", "Actual Generation (GWh)", "Primary Source"])\<close>\<close>

definition select_columns :: "frame \<Rightarrow> error + frame" where
  "select_columns t = select [col ''Date'', col ''Actual Generation (GWh)'', col ''Primary Source''] t"

text \<open>\<^verbatim>\<open>df.rename({"Actual Generation (GWh)": "Generation", "Primary Source": "Source"})\<close>\<close>

definition rename_columns :: "frame \<Rightarrow> error + frame" where
  "rename_columns t =
     rename [(''Actual Generation (GWh)'', ''Generation''), (''Primary Source'', ''Source'')] t"

text \<open>\<^verbatim>\<open>df.with_columns((pl.col("Actual Generation (GWh)") * 1000).alias("Generation_MWh"))\<close>\<close>

definition derive_mwh :: "frame \<Rightarrow> error + frame" where
  "derive_mwh t =
     with_columns [Alias (Elem (MulLit (Col ''Actual Generation (GWh)'') 1000)) ''Generation_MWh''] t"

text \<open>\<^verbatim>\<open>df.filter(pl.col("Primary Source") == "Thermal")\<close>\<close>

definition filter_thermal :: "frame \<Rightarrow> error + frame" where
  "filter_thermal t = filter_df (EqLit (Col ''Primary Source'') ''Thermal'') t"

text \<open>\<^verbatim>\<open>df.filter(pl.col("Actual Generation (GWh)") > 10)\<close>\<close>

definition filter_above_10 :: "frame \<Rightarrow> error + frame" where
  "filter_above_10 t = filter_df (GtLit (Col ''Actual Generation (GWh)'') 10) t"

text \<open>\<^verbatim>\<open>df.sort("Actual Generation (GWh)", descending=True)\<close>\<close>

definition sort_by_generation :: "arrangement \<Rightarrow> frame \<Rightarrow> error + frame" where
  "sort_by_generation \<pi> t = sort_descending \<pi> ''Actual Generation (GWh)'' t"

text \<open>
  \<^verbatim>\<open>df.group_by("Primary Source").agg(sum.alias("Total_Generation"),
  mean.alias("Avg_Generation"), count.alias("Count"))\<close>
\<close>

definition source_statistics :: "arrangement \<Rightarrow> frame \<Rightarrow> error + frame" where
  "source_statistics \<pi> t =
     group_by_agg \<pi> [''Primary Source'']
       [AggAs AggSum (Col ''Actual Generation (GWh)'') ''Total_Generation'',
        AggAs AggMean (Col ''Actual Generation (GWh)'') ''Avg_Generation'',
        AggAs AggCount (Col ''Actual Generation (GWh)'') ''Count''] t"

text \<open>\<^verbatim>\<open>df.group_by("Primary Source").agg(max.alias("Max Gen"))\<close>\<close>

definition source_maximum :: "arrangement \<Rightarrow> frame \<Rightarrow> error + frame" where
  "source_maximum \<pi> t =
     group_by_agg \<pi> [''Primary Source'']
       [AggAs AggMax (Col ''Actual Generation (GWh)'') ''Max Gen''] t"

text \<open>\<^verbatim>\<open>df.with_columns(pl.col("Date").dt.hour().alias("Hour"))\<close>\<close>

definition with_hour :: "frame \<Rightarrow> error + frame" where
  "with_hour t = with_columns [Alias (Elem (DtHour (Col ''Date''))) ''Hour''] t"

text \<open>
  \<^verbatim>\<open>generation_df = df.with_columns(hour).group_by("Hour")
  .agg(mean.alias("Hourly Generation")).sort('Hour')\<close>
\<close>

definition make_generation_df :: "arrangement \<Rightarrow> frame \<Rightarrow> error + frame" where
  "make_generation_df \<pi> t =
     and_then (and_then (with_hour t)
       (group_by_agg \<pi> [''Hour'']
          [AggAs AggMean (Col ''Actual Generation (GWh)'') ''Hourly Generation'']))
       (sort_df \<pi> [''Hour''])"

text \<open>
  \<^verbatim>\<open>generation_by_hour_source_df = df.with_columns(hour)
  .with_columns(mean.over('Hour', 'Primary Source').alias("Hourly Generation"))
  .select('Hour', 'Primary Source', "Hourly Generation").unique().sort('Hour')\<close>
\<close>

definition make_generation_by_hour_source_df :: "arrangement \<Rightarrow> frame \<Rightarrow> error + frame" where
  "make_generation_by_hour_source_df \<pi> t =
     and_then (and_then (and_then (and_then (with_hour t)
       (with_columns
          [Alias (Over AggMean (Col ''Actual Generation (GWh)'') [''Hour'', ''Primary Source''])
             ''Hourly Generation'']))
       (select [col ''Hour'', col ''Primary Source'', col ''Hourly Generation'']))
       (\<lambda>u. Inr (unique \<pi> u)))
       (sort_df \<pi> [''Hour''])"

text \<open>
  \<^verbatim>\<open>df.pivot(values="Actual Generation (GWh)", index="Date", on="Primary Source",
  aggregate_function="mean")\<close>
\<close>

definition pivot_by_source :: "frame \<Rightarrow> error + frame" where
  "pivot_by_source t = pivot ''Actual Generation (GWh)'' ''Date'' ''Primary Source'' AggMean t"

text \<open>
  The daily-total cell, in two halves: the sorted table of totals per \<open>Date\<close>,
  \<^verbatim>\<open>df.select(Date, sum.over('Date')).unique().sort('Date')\<close>, and the rolling mean
  over it, \<^verbatim>\<open>.select(Date, pl.col('Actual Generation (GWh)').rolling_mean(24))\<close>.
\<close>

definition date_totals :: "arrangement \<Rightarrow> frame \<Rightarrow> error + frame" where
  "date_totals \<pi> t =
     and_then (and_then
       (select [col ''Date'', Plain (Over AggSum (Col ''Actual Generation (GWh)'') [''Date''])] t)
       (\<lambda>u. Inr (unique \<pi> u)))
       (sort_df \<pi> [''Date''])"

definition rolling_daily_mean :: "arrangement \<Rightarrow> frame \<Rightarrow> error + frame" where
  "rolling_daily_mean \<pi> t =
     and_then (date_totals \<pi> t)
       (select [col ''Date'', Plain (RollingMean (Col ''Actual Generation (GWh)'') 24)])"

text \<open>
  \<^verbatim>\<open>output_df = df.with_columns(date = pl.col('Date').dt.date())
  .group_by('date', 'Primary Source').agg(sum.alias('generation_gwh'))
  .select(date, generation_gwh, pl.col('Primary Source').alias('source'))
  .sort('date', 'source')\<close>
\<close>

definition make_output_df :: "arrangement \<Rightarrow> frame \<Rightarrow> error + frame" where
  "make_output_df \<pi> t =
     and_then (and_then (and_then
       (with_columns [Alias (Elem (DtDate (Col ''Date''))) ''date''] t)
       (group_by_agg \<pi> [''date'', ''Primary Source'']
          [AggAs AggSum (Col ''Actual Generation (GWh)'') ''generation_gwh'']))
       (select [col ''date'', col ''generation_gwh'',
                Alias (Elem (Col ''Primary Source'')) ''source'']))
       (sort_df \<pi> [''date'', ''source''])"

subsection \<open>The cells\<close>

text \<open>The imports, and \<^verbatim>\<open>pio.templates.default = 'plotly_white'\<close>.\<close>

definition cell_setup :: step where
  "cell_setup \<pi> s = Inr (s\<lparr>template := ''plotly_white''\<rparr>)"

text \<open>
  \<^verbatim>\<open>data_path = Path('..') / "data" / "power_generation.xlsx";
  df = pl.read_excel(data_path); df.head()\<close>
\<close>

definition cell_load :: step where
  "cell_load \<pi> s =
     (let p = ''../data/power_generation.xlsx'' in
      and_then (read_excel (fs s) p) (\<lambda>t.
        Inr (emit (Display (Preview (head 5 t)))
              (emit (ReadFile p) (s\<lparr>data_path := Some p, df := Some t\<rparr>)))))"

text \<open>\<^verbatim>\<open>print(df.describe())\<close>, \<^verbatim>\<open>df.dtypes\<close>, \<^verbatim>\<open>df.columns\<close>, \<^verbatim>\<open>df.schema\<close>.\<close>

definition cell_describe :: step where
  "cell_describe \<pi> s = and_then (var ''df'' (df s)) (\<lambda>t. Inr (emit (Print (Summary t)) s))"

definition cell_dtypes :: step where
  "cell_dtypes \<pi> s = and_then (var ''df'' (df s)) (\<lambda>t. Inr (emit (Display (Dtypes (dtypes t))) s))"

definition cell_columns :: step where
  "cell_columns \<pi> s = and_then (var ''df'' (df s)) (\<lambda>t. Inr (emit (Display (Columns (columns t))) s))"

definition cell_schema :: step where
  "cell_schema \<pi> s = and_then (var ''df'' (df s)) (\<lambda>t. Inr (emit (Display (Schema (schema t))) s))"

definition cell_select :: step where
  "cell_select \<pi> s = show_table select_columns s"

definition cell_rename :: step where
  "cell_rename \<pi> s = show_table rename_columns s"

definition cell_derive :: step where
  "cell_derive \<pi> s = show_table derive_mwh s"

definition cell_filter_thermal :: step where
  "cell_filter_thermal \<pi> s = show_table filter_thermal s"

definition cell_filter_above_10 :: step where
  "cell_filter_above_10 \<pi> s = show_table filter_above_10 s"

definition cell_sort :: step where
  "cell_sort \<pi> s = show_table (sort_by_generation \<pi>) s"

definition cell_source_statistics :: step where
  "cell_source_statistics \<pi> s = show_table (source_statistics \<pi>) s"

definition cell_source_maximum :: step where
  "cell_source_maximum \<pi> s = show_table (source_maximum \<pi>) s"

definition cell_hour :: step where
  "cell_hour \<pi> s = show_table with_hour s"

definition cell_generation_df :: step where
  "cell_generation_df \<pi> s =
     and_then (var ''df'' (df s)) (\<lambda>t.
     and_then (make_generation_df \<pi> t) (\<lambda>r.
       Inr (emit (Bind ''generation_df'' r) (s\<lparr>generation_df := Some r\<rparr>))))"

text \<open>\<^verbatim>\<open>px.line(generation_df, x='Hour', y='Hourly Generation')\<close>\<close>

definition cell_line :: step where
  "cell_line \<pi> s =
     and_then (var ''generation_df'' (generation_df s)) (\<lambda>g.
     and_then (px Line g ''Hour'' ''Hourly Generation'' None (template s)) (\<lambda>f.
       Inr (emit (Display (Fig f)) s)))"

definition cell_generation_by_hour_source_df :: step where
  "cell_generation_by_hour_source_df \<pi> s =
     and_then (var ''df'' (df s)) (\<lambda>t.
     and_then (make_generation_by_hour_source_df \<pi> t) (\<lambda>r.
       Inr (emit (Bind ''generation_by_hour_source_df'' r)
             (s\<lparr>generation_by_hour_source_df := Some r\<rparr>))))"

text \<open>
  \<^verbatim>\<open>px.area(generation_by_hour_source_df, x='Hour', y='Hourly Generation',
  color='Primary Source')\<close>
\<close>

definition cell_area :: step where
  "cell_area \<pi> s =
     and_then (var ''generation_by_hour_source_df'' (generation_by_hour_source_df s)) (\<lambda>g.
     and_then (px Area g ''Hour'' ''Hourly Generation'' (Some ''Primary Source'') (template s))
       (\<lambda>f. Inr (emit (Display (Fig f)) s)))"

definition cell_pivot :: step where
  "cell_pivot \<pi> s = show_table pivot_by_source s"

definition cell_rolling :: step where
  "cell_rolling \<pi> s = show_table (rolling_daily_mean \<pi>) s"

definition cell_output_df :: step where
  "cell_output_df \<pi> s =
     and_then (var ''df'' (df s)) (\<lambda>t.
     and_then (make_output_df \<pi> t) (\<lambda>r.
       Inr (emit (Bind ''output_df'' r) (s\<lparr>output_df := Some r\<rparr>))))"

text \<open>
  \<^verbatim>\<open>output_df.write_csv('output.csv'); output_df.write_excel('output.xlsx');
  output_df.write_parquet('output.parquet')\<close>
\<close>

definition cell_export :: step where
  "cell_export \<pi> s =
     and_then (var ''output_df'' (output_df s)) (\<lambda>t.
     and_then (write_csv ''output.csv'' t (fs s)) (\<lambda>w1.
     and_then (write_excel ''output.xlsx'' t w1) (\<lambda>w2.
     and_then (write_parquet ''output.parquet'' t w2) (\<lambda>w3.
       Inr (emit (WriteFile Parquet ''output.parquet'' t)
             (emit (WriteFile Xlsx ''output.xlsx'' t)
               (emit (WriteFile Csv ''output.csv'' t) (s\<lparr>fs := w3\<rparr>))))))))"

subsection \<open>Running the notebook\<close>

definition notebook :: "step list" where
  "notebook =
     [cell_setup, cell_load, cell_describe, cell_dtypes, cell_columns, cell_schema,
      cell_select, cell_rename, cell_derive, cell_filter_thermal, cell_filter_above_10,
      cell_sort, cell_source_statistics, cell_source_maximum, cell_hour,
      cell_generation_df, cell_line, cell_generation_by_hour_source_df, cell_area,
      cell_pivot, cell_rolling, cell_output_df, cell_export]"

text \<open>Cells run in order; the first error ends the run, as an uncaught exception does.\<close>

fun run_cells :: "step list \<Rightarrow> arrangement \<Rightarrow> state \<Rightarrow> error + state" where
  "run_cells [] \<pi> s = Inr s"
| "run_cells (c # cs) \<pi> s = and_then (c \<pi> s) (run_cells cs \<pi>)"

definition run_notebook :: "arrangement \<Rightarrow> filesystem \<Rightarrow> error + state" where
  "run_notebook \<pi> w = run_cells notebook \<pi> (initial w)"

subsection \<open>A small input\<close>

text \<open>
  Five readings over two days and two sources, in the three columns the notebook uses,
  and a file system that holds them as the workbook the notebook loads.
\<close>

definition sample :: frame where
  "sample =
     \<lparr>schema = [(''Date'', Datetime), (''Actual Generation (GWh)'', Float64),
                (''Primary Source'', Utf8)],
      rows = [[VDatetime 0, VFloat 2, VStr ''Wind''],
              [VDatetime 0, VFloat 12, VStr ''Thermal''],
              [VDatetime 3600000000, VFloat 4, VStr ''Wind''],
              [VDatetime 86400000000, VFloat 6, VStr ''Wind''],
              [VDatetime 86400000000, VFloat 1, VStr ''Thermal'']]\<rparr>"

definition sample_fs :: filesystem where
  "sample_fs =
     \<lparr>files = [''../data/power_generation.xlsx'' \<mapsto> Encoded Xlsx sample], read_only = []\<rparr>"

subsection \<open>The notebook's columns, row by row\<close>

text \<open>
  What the cells read from a row of the loaded frame: its generation, its source, and
  the hour and the calendar date of its timestamp.
\<close>

definition generation_at :: "schema \<Rightarrow> row \<Rightarrow> cell" where
  "generation_at sch r = cell_of sch ''Actual Generation (GWh)'' r"

definition source_at :: "schema \<Rightarrow> row \<Rightarrow> cell" where
  "source_at sch r = cell_of sch ''Primary Source'' r"



definition date_at :: "schema \<Rightarrow> row \<Rightarrow> cell" where
  "date_at sch r = date_cell (cell_of sch ''Date'' r)"

subsection \<open>Phases of a run\<close>

text \<open>
  The five phases the specification names, and the phase each logged event belongs to:
  reading the workbook is loading; the preview, the summary, the dtypes, the column
  names and the schema are inspection; a displayed or bound table is a transformation;
  a displayed figure is a chart; a written file is a write.
\<close>

datatype phase = Loading | Inspecting | Transforming | Charting | Writing

fun shown_phase :: "shown \<Rightarrow> phase" where
  "shown_phase (Preview t) = Inspecting"
| "shown_phase (Summary t) = Inspecting"
| "shown_phase (Dtypes ts) = Inspecting"
| "shown_phase (Columns ns) = Inspecting"
| "shown_phase (Schema sch) = Inspecting"
| "shown_phase (Table t) = Transforming"
| "shown_phase (Fig f) = Charting"

fun phase_of :: "event \<Rightarrow> phase" where
  "phase_of (ReadFile p) = Loading"
| "phase_of (Print v) = shown_phase v"
| "phase_of (Display v) = shown_phase v"
| "phase_of (Bind n t) = Transforming"
| "phase_of (WriteFile fmt p t) = Writing"

fun phase_rank :: "phase \<Rightarrow> nat" where
  "phase_rank Loading = 1"
| "phase_rank Inspecting = 2"
| "phase_rank Transforming = 3"
| "phase_rank Charting = 4"
| "phase_rank Writing = 5"

text \<open>The phases of a run come in the order of the specification's list.\<close>

definition in_spec_order :: "phase list \<Rightarrow> bool" where
  "in_spec_order ps \<longleftrightarrow> sorted (map phase_rank ps)"

fun is_file_io :: "event \<Rightarrow> bool" where
  "is_file_io (ReadFile p) = True"
| "is_file_io (WriteFile fmt p t) = True"
| "is_file_io ev = False"

definition events_of :: "error + state \<Rightarrow> event list" where
  "events_of r = (case r of Inl e \<Rightarrow> [] | Inr s \<Rightarrow> outputs s)"

subsection \<open>The aggregated table of the specification\<close>


subsection \<open>Whose error it is\<close>

text \<open>
  \<open>NameError\<close> is the interpreter's, for a variable read before it is bound: the one
  error in this model that the notebook's own code could cause. Every other error is
  raised inside the dataframe library, the charting library or the file system.
\<close>

fun raised_by_library :: "error \<Rightarrow> bool" where
  "raised_by_library (NameError v) = False"
| "raised_by_library e = True"

definition library_only :: "error + 'a \<Rightarrow> bool" where
  "library_only r \<longleftrightarrow> (case r of Inl e \<Rightarrow> raised_by_library e | Inr x \<Rightarrow> True)"




section \<open>Properties\<close>

subsection \<open>Errors, cells and columns\<close>

lemma and_then_Inr [simp]: "and_then (Inr x) f = f x"
  by (simp add: and_then_def)

lemma and_then_Inl [simp]: "and_then (Inl e) f = Inl e"
  by (simp add: and_then_def)

lemma and_then_eq_Inr: "and_then r f = Inr y \<longleftrightarrow> (\<exists>x. r = Inr x \<and> f x = Inr y)"
  by (cases r) simp_all

lemma and_then_eq_Inl: "and_then r f = Inl e \<longleftrightarrow> r = Inl e \<or> (\<exists>x. r = Inr x \<and> f x = Inl e)"
  by (cases r) simp_all

lemma index_of_less: "n \<in> set ns \<Longrightarrow> index_of n ns < length ns"
  unfolding index_of_def by (induction ns) auto

lemma index_of_nth: "n \<in> set ns \<Longrightarrow> ns ! index_of n ns = n"
  unfolding index_of_def by (induction ns) auto

lemma map_of_zip_update:
  "distinct xs \<Longrightarrow> i < length xs \<Longrightarrow> length ys = length xs \<Longrightarrow>
   map_of (zip xs (ys[i := v])) = (map_of (zip xs ys))(xs ! i \<mapsto> v)"
proof (induction xs arbitrary: ys i)
  case Nil
  then show ?case by simp
next
  case (Cons x xs)
  then obtain y ys' where ys: "ys = y # ys'" by (cases ys) auto
  show ?case
  proof (cases i)
    case 0
    then show ?thesis by (auto simp: ys)
  next
    case (Suc j)
    with Cons.prems have "x \<noteq> xs ! j" by auto
    with Cons Suc show ?thesis by (auto simp: ys fun_eq_iff)
  qed
qed

lemma names_put_same:
  "n \<in> set (map fst sch) \<Longrightarrow> map fst (sch[index_of n (map fst sch) := (n, t)]) = map fst sch"
  by (metis fst_conv index_of_nth list_update_id map_update)

lemma map_of_zip_snoc:
  "length xs = length ys \<Longrightarrow>
   map_of (zip (xs @ [n]) (ys @ [v])) m =
     (case map_of (zip xs ys) m of Some c \<Rightarrow> Some c | None \<Rightarrow> if m = n then Some v else None)"
  by (induction xs ys rule: list_induct2) simp_all

lemma cell_of_put:
  assumes "length r = length sch" and "distinct (map fst sch)"
  shows "cell_of (put_field sch n ty) m (put_cell (map fst sch) n r v) =
         (if m = n then v else cell_of sch m r)"
proof (cases "n \<in> set (map fst sch)")
  case True
  let ?i = "index_of n (map fst sch)"
  have i: "?i < length (map fst sch)" using index_of_less[OF True] .
  have "map_of (zip (map fst sch) (r[?i := v])) = (map_of (zip (map fst sch) r))(n \<mapsto> v)"
    using map_of_zip_update[OF assms(2) i, of r v] assms(1) index_of_nth[OF True] by simp
  then show ?thesis
    using True names_put_same[OF True, of ty]
    by (simp add: cell_of_def put_field_def put_cell_def)
next
  case False
  have none: "map_of (zip (map fst sch) r) n = None"
    using False assms(1) by (simp add: map_of_zip_is_None)
  have snoc: "map_of (zip (map fst sch @ [n]) (r @ [v])) m =
      (case map_of (zip (map fst sch) r) m of Some c \<Rightarrow> Some c
       | None \<Rightarrow> if m = n then Some v else None)"
    using assms(1) by (intro map_of_zip_snoc) simp
  have "cell_of (sch @ [(n, ty)]) m (r @ [v]) =
      (case map_of (zip (map fst sch @ [n]) (r @ [v])) m of Some c \<Rightarrow> c | None \<Rightarrow> Null)"
    by (simp add: cell_of_def)
  also have "\<dots> = (if m = n then v else cell_of sch m r)"
    unfolding snoc using none by (simp add: cell_of_def split: option.splits)
  finally show ?thesis
    using False by (simp add: put_field_def put_cell_def)
qed

lemma wf_row_length: "wf_row sch r \<Longrightarrow> length r = length sch"
  by (auto simp: wf_row_def dest: list_all2_lengthD)

lemma wf_frame_row: "wf_frame t \<Longrightarrow> r \<in> set (rows t) \<Longrightarrow> length r = length (schema t)"
  by (auto simp: wf_frame_def list_all_iff wf_row_length)

lemma map2_same: "map2 f xs (map g xs) = map (\<lambda>x. f x (g x)) xs"
  by (induction xs) auto

lemma with_columns_elem:
  "with_columns [Alias (Elem e) n] t =
     and_then (expr_dtype (schema t) e) (\<lambda>ty.
       Inr \<lparr>schema = put_field (schema t) n ty,
            rows = map (\<lambda>r. put_cell (columns t) n r (eval_expr (schema t) e r)) (rows t)\<rparr>)"
  by (cases "expr_dtype (schema t) e")
     (simp_all add: with_columns_def eval_item_def put_column_def series_name_def
        series_dtype_def series_values_def map2_same)

lemma eval_Col: "eval_expr sch (Col n) = cell_of sch n"
  by (rule ext) simp

subsection \<open>Sorting rows with distinct keys; grouping\<close>

lemma dtype_of_put:
  assumes "distinct (map fst sch)"
  shows "dtype_of (put_field sch n ty) m = (if m = n then Inr ty else dtype_of sch m)"
proof (cases "n \<in> set (map fst sch)")
  case True
  let ?i = "index_of n (map fst sch)"
  have i: "?i < length (map fst sch)" using index_of_less[OF True] .
  have z: "zip (map fst sch) (map snd sch) = sch" by (rule zip_map_fst_snd)
  have "sch[?i := (n, ty)] = zip (map fst sch) ((map snd sch)[?i := ty])"
    using i index_of_nth[OF True] by (simp add: list_eq_iff_nth_eq nth_list_update prod_eq_iff)
  then have "map_of (sch[?i := (n, ty)]) = (map_of sch)(n \<mapsto> ty)"
    using map_of_zip_update[OF assms i, of "map snd sch" ty] index_of_nth[OF True] z by simp
  then show ?thesis
    using True by (simp add: dtype_of_def put_field_def)
next
  case False
  then have "map_of sch n = None"
    by (simp add: map_of_eq_None_iff)
  then show ?thesis
    using False by (auto simp: dtype_of_def put_field_def map_add_def split: option.splits)
qed

lemma filter_distinct_key:
  "distinct (map f zs) \<Longrightarrow> k \<in> set zs \<Longrightarrow> filter (\<lambda>x. f k = f x) zs = [k]"
proof (induction zs)
  case Nil
  then show ?case by simp
next
  case (Cons z zs)
  show ?case
  proof (cases "k = z")
    case True
    with Cons.prems have "filter (\<lambda>x. f z = f x) zs = []"
      by (auto simp: filter_empty_conv)
    with True show ?thesis by simp
  next
    case False
    with Cons.prems have "k \<in> set zs" and "f k \<noteq> f z" by (auto simp: image_iff)
    with Cons show ?thesis by simp
  qed
qed

lemma distinct_map_mset:
  assumes "mset ys = mset xs" and "distinct (map f xs)"
  shows "distinct (map f ys)"
proof -
  have "mset (map f ys) = mset (map f xs)" using assms(1) by (metis mset_map)
  then show ?thesis using assms(2) by (metis mset_eq_imp_distinct_iff)
qed

lemma sort_key_unique:
  assumes "mset ys = mset xs" and "distinct (map f xs)"
  shows "sort_key f ys = sort_key f xs"
proof (rule properties_for_sort_key)
  show "mset (sort_key f xs) = mset ys" using assms(1) by simp
  show "sorted (map f (sort_key f xs))" by (rule sorted_sort_key)
next
  fix k assume k: "k \<in> set (sort_key f xs)"
  have dy: "distinct (map f ys)" by (rule distinct_map_mset[OF assms])
  have ds: "distinct (map f (sort_key f xs))"
    by (rule distinct_map_mset[OF _ assms(2)]) simp
  have "k \<in> set ys" using k assms(1) by (metis mset_eq_setD set_sort)
  then show "filter (\<lambda>x. f k = f x) (sort_key f xs) = filter (\<lambda>x. f k = f x) ys"
    using filter_distinct_key[OF dy] filter_distinct_key[OF ds k] by simp
qed

lemma insort_key_map_section:
  assumes "\<And>k. k \<in> set (x # ys) \<Longrightarrow> f (g k) = k"
  shows "insort_key f (g x) (map g ys) = map g (insort x ys)"
  using assms by (induction ys) auto

lemma sort_key_map_section:
  assumes "\<And>k. k \<in> set ks \<Longrightarrow> f (g k) = k"
  shows "sort_key f (map g ks) = map g (sort ks)"
  using assms
proof (induction ks)
  case Nil
  then show ?case by simp
next
  case (Cons x ks)
  then have "sort_key f (map g ks) = map g (sort ks)" by simp
  moreover have "insort_key f (g x) (map g (sort ks)) = map g (insort x (sort ks))"
    using Cons.prems by (intro insort_key_map_section) auto
  ultimately show ?case by simp
qed




lemma arranges_mset: "arranges \<pi> \<Longrightarrow> mset (\<pi> rs) = mset rs"
  by (simp add: arranges_def)

lemma arranges_set: "arranges \<pi> \<Longrightarrow> set (\<pi> rs) = set rs"
  by (metis arranges_mset mset_eq_setD)

lemma group_by_agg_single:
  assumes "dtypes_of (schema a) ks = Inr kts"
    and "agg_plan (schema a) f e = Inr (ty, agg)"
    and "distinct (ks @ [n])"
  shows "group_by_agg \<pi> ks [AggAs f e n] a =
     Inr \<lparr>schema = zip (ks @ [n]) (kts @ [ty]),
          rows = map (\<lambda>k. k @ [agg (filter (\<lambda>r. key_of (schema a) ks r = k) (rows a))])
                   (\<pi> (remdups (map (key_of (schema a) ks) (rows a))))\<rparr>"
  using assms by (simp add: group_by_agg_def)


lemma arranged_map_mset:
  assumes "arranges \<pi>"
  shows "mset (\<pi> (map G (\<pi> K))) = mset (map G K)"
proof -
  have "mset (\<pi> (map G (\<pi> K))) = mset (map G (\<pi> K))"
    by (rule arranges_mset[OF assms])
  also have "\<dots> = image_mset G (mset (\<pi> K))" by (simp only: mset_map)
  also have "\<dots> = image_mset G (mset K)" by (simp only: arranges_mset[OF assms])
  also have "\<dots> = mset (map G K)" by (simp only: mset_map)
  finally show ?thesis .
qed

text \<open>
  Sorting what a group-by returned, by the group keys: whatever order the engine picked
  for the groups and for equal keys, the result is the groups in the order of their keys.
\<close>

lemma sort_grouped:
  assumes "arranges \<pi>" and "distinct K" and "\<And>k. k \<in> set K \<Longrightarrow> key (G k) = k"
  shows "sort_key key (\<pi> (map G (\<pi> K))) = map G (sort K)"
proof -
  have "map (key \<circ> G) K = K"
    by (rule map_idI) (simp add: assms(3))
  then have "distinct (map key (map G K))"
    using assms(2) by (simp only: map_map)
  then have "sort_key key (\<pi> (map G (\<pi> K))) = sort_key key (map G K)"
    by (rule sort_key_unique[OF arranged_map_mset[OF assms(1)]])
  also have "\<dots> = map G (sort K)"
    by (rule sort_key_map_section) (rule assms(3))
  finally show ?thesis .
qed


subsection \<open>Facts about the small input\<close>

lemma wf_sample: "wf_frame sample"
  by (simp add: sample_def wf_frame_def wf_row_def columns_def)

lemma sample_date: "dtype_of (schema sample) ''Date'' = Inr Datetime"
  by (simp add: sample_def dtype_of_def)

lemma sample_generation: "dtype_of (schema sample) ''Actual Generation (GWh)'' = Inr Float64"
  by (simp add: sample_def dtype_of_def)

lemma sample_source: "dtype_of (schema sample) ''Primary Source'' = Inr Utf8"
  by (simp add: sample_def dtype_of_def)

lemma numeric_Float64: "numeric Float64"
  by (simp add: numeric_def)


lemma arranges_sort: "arranges sort"
  by (simp add: arranges_def)


subsection \<open>Selections, and the exported table in closed form\<close>

lemma map_nth_rows: "map (\<lambda>i. f (xs ! i)) [0..<length xs] = map f xs"
proof -
  have "map (\<lambda>i. f (xs ! i)) [0..<length xs] = map f (map ((!) xs) [0..<length xs])"
    by (simp only: map_map comp_def)
  then show ?thesis by (simp only: map_nth)
qed

lemma from_series_2:
  "from_series (length xs) [(n1, t1, map f1 xs), (n2, t2, map f2 xs)] =
     \<lparr>schema = [(n1, t1), (n2, t2)], rows = map (\<lambda>x. [f1 x, f2 x]) xs\<rparr>"
proof -
  have "map (\<lambda>i. map (\<lambda>s. series_values s ! i) [(n1, t1, map f1 xs), (n2, t2, map f2 xs)])
          [0..<length xs] =
        map (\<lambda>i. (\<lambda>x. [f1 x, f2 x]) (xs ! i)) [0..<length xs]"
    by (rule map_cong[OF refl]) (simp add: series_values_def)
  also have "\<dots> = map (\<lambda>x. [f1 x, f2 x]) xs"
    by (rule map_nth_rows)
  finally show ?thesis
    unfolding from_series_def by (simp add: series_name_def series_dtype_def)
qed

lemma from_series_3:
  "from_series (length xs) [(n1, t1, map f1 xs), (n2, t2, map f2 xs), (n3, t3, map f3 xs)] =
     \<lparr>schema = [(n1, t1), (n2, t2), (n3, t3)], rows = map (\<lambda>x. [f1 x, f2 x, f3 x]) xs\<rparr>"
proof -
  have "map (\<lambda>i. map (\<lambda>s. series_values s ! i)
               [(n1, t1, map f1 xs), (n2, t2, map f2 xs), (n3, t3, map f3 xs)])
          [0..<length xs] =
        map (\<lambda>i. (\<lambda>x. [f1 x, f2 x, f3 x]) (xs ! i)) [0..<length xs]"
    by (rule map_cong[OF refl]) (simp add: series_values_def)
  also have "\<dots> = map (\<lambda>x. [f1 x, f2 x, f3 x]) xs"
    by (rule map_nth_rows)
  finally show ?thesis
    unfolding from_series_def by (simp add: series_name_def series_dtype_def)
qed


lemma with_date_eq:
  assumes "dtype_of (schema t) ''Date'' = Inr Datetime"
  shows "with_columns [Alias (Elem (DtDate (Col ''Date''))) ''date''] t =
     Inr \<lparr>schema = put_field (schema t) ''date'' Date,
          rows = map (\<lambda>r. put_cell (columns t) ''date'' r (date_at (schema t) r)) (rows t)\<rparr>"
  using assms by (simp add: with_columns_elem date_at_def)

lemma make_output_df_eq:
  assumes wf: "wf_frame t" and ar: "arranges \<pi>"
    and d: "dtype_of (schema t) ''Date'' = Inr Datetime"
    and g: "dtype_of (schema t) ''Actual Generation (GWh)'' = Inr ty" "numeric ty"
    and s: "dtype_of (schema t) ''Primary Source'' = Inr ts"
  shows "make_output_df \<pi> t =
     Inr \<lparr>schema = [(''date'', Date), (''generation_gwh'', ty), (''source'', ts)],
          rows = map (\<lambda>k. [k ! 0,
                           agg_cells AggSum ty (map (generation_at (schema t))
                             (filter (\<lambda>r. [date_at (schema t) r, source_at (schema t) r] = k) (rows t))),
                           k ! 1])
                   (sort (remdups (map (\<lambda>r. [date_at (schema t) r, source_at (schema t) r]) (rows t))))\<rparr>"
proof -
  let ?sch = "schema t"
  let ?A = "put_field ?sch ''date'' Date"
  let ?P = "\<lambda>r. put_cell (columns t) ''date'' r (date_at ?sch r)"
  let ?ks = "[''date'', ''Primary Source'']"
  let ?gen = "Col ''Actual Generation (GWh)''"
  let ?T = "\<lambda>k. agg_cells AggSum ty (map (generation_at ?sch)
              (filter (\<lambda>r. [date_at ?sch r, source_at ?sch r] = k) (rows t)))"
  let ?K = "remdups (map (\<lambda>r. [date_at ?sch r, source_at ?sch r]) (rows t))"
  let ?schG = "[(''date'', Date), (''Primary Source'', ts), (''generation_gwh'', ty)]"
  let ?schS = "[(''date'', Date), (''generation_gwh'', ty), (''source'', ts)]"
  let ?G = "\<lambda>k. [k ! 0, ?T k, k ! 1]"
  define rowsA where "rowsA = map ?P (rows t)"
  have a: "with_columns [Alias (Elem (DtDate (Col ''Date''))) ''date''] t =
      Inr \<lparr>schema = ?A, rows = rowsA\<rparr>"
    unfolding rowsA_def by (rule with_date_eq[OF d])
  have dist: "distinct (map fst ?sch)"
    using wf by (simp add: wf_frame_def columns_def)
  have kA: "dtypes_of ?A ?ks = Inr [Date, ts]"
    using s by (simp add: dtype_of_put[OF dist])
  have plan: "agg_plan ?A AggSum ?gen =
      Inr (ty, \<lambda>grp. agg_cells AggSum ty (map (eval_expr ?A ?gen) grp))"
    using g by (simp add: agg_plan_def dtype_of_put[OF dist])
  have cells: "cell_of ?A m (put_cell (columns t) ''date'' r v) =
      (if m = ''date'' then v else cell_of ?sch m r)"
    if "r \<in> set (rows t)" for r m v
    using cell_of_put[OF wf_frame_row[OF wf that] dist] by (simp add: columns_def)
  have keys: "map (key_of ?A ?ks) rowsA = map (\<lambda>r. [date_at ?sch r, source_at ?sch r]) (rows t)"
    unfolding rowsA_def by (simp add: key_of_def cells source_at_def)
  have grp: "map (eval_expr ?A ?gen) (filter (\<lambda>r. key_of ?A ?ks r = k) rowsA) =
             map (generation_at ?sch) (filter (\<lambda>r. [date_at ?sch r, source_at ?sch r] = k) (rows t))"
    for k
  proof -
    have "filter (\<lambda>r. key_of ?A ?ks r = k) rowsA =
          map ?P (filter (\<lambda>r. [date_at ?sch r, source_at ?sch r] = k) (rows t))"
      unfolding rowsA_def filter_map by (rule arg_cong[of _ _ "map ?P"], rule filter_cong)
        (simp_all add: key_of_def cells source_at_def)
    moreover have "map (eval_expr ?A ?gen)
          (map ?P (filter (\<lambda>r. [date_at ?sch r, source_at ?sch r] = k) (rows t))) =
        map (generation_at ?sch) (filter (\<lambda>r. [date_at ?sch r, source_at ?sch r] = k) (rows t))"
      unfolding map_map by (rule map_cong[OF refl]) (simp add: cells generation_at_def)
    ultimately show ?thesis by (simp only:)
  qed
  have gb: "group_by_agg \<pi> ?ks [AggAs AggSum ?gen ''generation_gwh'']
        \<lparr>schema = ?A, rows = rowsA\<rparr> =
      Inr \<lparr>schema = ?schG,
           rows = map (\<lambda>k. k @ [agg_cells AggSum ty (map (eval_expr ?A ?gen)
                           (filter (\<lambda>r. key_of ?A ?ks r = k) rowsA))])
                    (\<pi> (remdups (map (key_of ?A ?ks) rowsA)))\<rparr>"
    unfolding group_by_agg_def using kA plan by simp
  have group: "group_by_agg \<pi> ?ks [AggAs AggSum ?gen ''generation_gwh'']
        \<lparr>schema = ?A, rows = rowsA\<rparr> =
      Inr \<lparr>schema = ?schG, rows = map (\<lambda>k. k @ [?T k]) (\<pi> ?K)\<rparr>"
    unfolding gb keys grp ..
  have pick: "select [col ''date'', col ''generation_gwh'', Alias (Elem (Col ''Primary Source'')) ''source'']
        \<lparr>schema = ?schG, rows = R\<rparr> =
      Inr \<lparr>schema = ?schS,
           rows = map (\<lambda>r. [cell_of ?schG ''date'' r, cell_of ?schG ''generation_gwh'' r,
                            cell_of ?schG ''Primary Source'' r]) R\<rparr>" for R
    using from_series_3[of R "''date''" Date "cell_of ?schG ''date''" "''generation_gwh''" ty
        "cell_of ?schG ''generation_gwh''" "''source''" ts "cell_of ?schG ''Primary Source''"]
    by (simp add: select_def eval_item_def dtype_of_def series_name_def height_def eval_Col)
  have K2: "\<exists>d s. k = [d, s]" if "k \<in> set ?K" for k
    using that by auto
  have sel: "map (\<lambda>r. [cell_of ?schG ''date'' r, cell_of ?schG ''generation_gwh'' r,
                       cell_of ?schG ''Primary Source'' r]) (map (\<lambda>k. k @ [?T k]) (\<pi> ?K)) =
             map ?G (\<pi> ?K)"
    unfolding map_map
  proof (rule map_cong[OF refl])
    fix k assume "k \<in> set (\<pi> ?K)"
    then have "k \<in> set ?K" using arranges_set[OF ar] by simp
    then obtain d s where "k = [d, s]" using K2 by blast
    then show "((\<lambda>r. [cell_of ?schG ''date'' r, cell_of ?schG ''generation_gwh'' r,
                       cell_of ?schG ''Primary Source'' r]) \<circ> (\<lambda>k. k @ [?T k])) k = ?G k"
      by (simp add: cell_of_def)
  qed
  let ?key = "key_of ?schS [''date'', ''source'']"
  have keyG: "?key (?G k) = k" if "k \<in> set ?K" for k
    using K2[OF that] by (auto simp: key_of_def cell_of_def)
  have sorted: "sort_key ?key (\<pi> (map ?G (\<pi> ?K))) = map ?G (sort ?K)"
    by (rule sort_grouped[OF ar]) (simp, rule keyG)
  have srt: "sort_df \<pi> [''date'', ''source''] \<lparr>schema = ?schS, rows = R\<rparr> =
      Inr \<lparr>schema = ?schS, rows = sort_key ?key (\<pi> R)\<rparr>" for R
    by (simp add: sort_df_def dtype_of_def)
  show ?thesis
    unfolding make_output_df_def a and_then_Inr group pick sel srt sorted ..
qed

subsection \<open>A run, unrolled\<close>

lemma and_then_assoc: "and_then (and_then r f) g = and_then r (\<lambda>x. and_then (f x) g)"
  by (cases r) simp_all

lemma var_Some [simp]: "var n (Some x) = Inr x"
  by (simp add: var_def)

lemmas cell_defs =
  cell_setup_def cell_load_def cell_describe_def cell_dtypes_def cell_columns_def
  cell_schema_def cell_select_def cell_rename_def cell_derive_def cell_filter_thermal_def
  cell_filter_above_10_def cell_sort_def cell_source_statistics_def cell_source_maximum_def
  cell_hour_def cell_generation_df_def cell_line_def cell_generation_by_hour_source_df_def
  cell_area_def cell_pivot_def cell_rolling_def cell_output_df_def cell_export_def
  show_table_def

text \<open>
  A run that succeeds, unrolled: what was loaded, what every variable holds at the end,
  which files were touched, and the phases of the logged events in order.
\<close>

lemma run_summary:
  assumes "run_notebook \<pi> w = Inr s"
  shows "\<exists>t out w1 w2.
      read_excel w ''../data/power_generation.xlsx'' = Inr t
    \<and> (\<exists>h. with_hour t = Inr h)
    \<and> (\<exists>f. filter_thermal t = Inr f)
    \<and> make_output_df \<pi> t = Inr out
    \<and> df s = Some t \<and> output_df s = Some out
    \<and> write_csv ''output.csv'' out w = Inr w1
    \<and> write_excel ''output.xlsx'' out w1 = Inr w2
    \<and> write_parquet ''output.parquet'' out w2 = Inr (fs s)
    \<and> filter is_file_io (outputs s) =
         [ReadFile ''../data/power_generation.xlsx'', WriteFile Csv ''output.csv'' out,
          WriteFile Xlsx ''output.xlsx'' out, WriteFile Parquet ''output.parquet'' out]
    \<and> map phase_of (outputs s) =
         [Loading, Inspecting, Inspecting, Inspecting, Inspecting, Inspecting,
          Transforming, Transforming, Transforming, Transforming, Transforming,
          Transforming, Transforming, Transforming, Transforming, Transforming,
          Charting, Transforming, Charting, Transforming, Transforming, Transforming,
          Writing, Writing, Writing]"
  using assms
  unfolding run_notebook_def notebook_def
  by (auto simp: cell_defs and_then_assoc and_then_eq_Inr emit_def initial_def Let_def)

lemma sample_run_succeeds: "\<not> isl (run_notebook id sample_fs)"
  by code_simp






lemma run_cells_append:
  "run_cells (as @ bs) \<pi> s = and_then (run_cells as \<pi> s) (run_cells bs \<pi>)"
proof (induction as arbitrary: s)
  case Nil
  then show ?case by simp
next
  case (Cons a as)
  then show ?case by (cases "a \<pi> s") simp_all
qed

lemma run_cells_keep_df:
  assumes "\<And>c s s'. c \<in> set cs \<Longrightarrow> c \<pi> s = Inr s' \<Longrightarrow> df s' = df s"
    and "run_cells cs \<pi> s = Inr s'"
  shows "df s' = df s"
  using assms
proof (induction cs arbitrary: s)
  case Nil
  then show ?case by simp
next
  case (Cons c cs)
  from Cons.prems(2) obtain s1 where s1: "c \<pi> s = Inr s1" "run_cells cs \<pi> s1 = Inr s'"
    by (auto simp: and_then_eq_Inr)
  have "df s' = df s1"
  proof (rule Cons.IH[OF _ s1(2)])
    fix c' a b assume "c' \<in> set cs" and "c' \<pi> a = Inr b"
    then show "df b = df a" using Cons.prems(1)[of c' a b] by simp
  qed
  moreover have "df s1 = df s"
    using Cons.prems(1)[of c s s1] s1(1) by simp
  ultimately show ?case by simp
qed

lemma later_cells_keep_df:
  assumes "c \<in> set (drop 2 notebook)" and "c \<pi> s = Inr s'"
  shows "df s' = df s"
  using assms
  by (auto simp: notebook_def cell_defs and_then_eq_Inr emit_def)

lemma load_binds_df:
  assumes "run_cells (take 2 notebook) \<pi> (initial w) = Inr s"
  shows "\<exists>t. read_excel w ''../data/power_generation.xlsx'' = Inr t \<and> df s = Some t"
  using assms
  by (auto simp: notebook_def cell_defs and_then_assoc and_then_eq_Inr emit_def initial_def Let_def)

subsection \<open>Errors of a run\<close>

lemma library_only_Inr [simp]: "library_only (Inr x)"
  by (simp add: library_only_def)

lemma library_only_Inl [simp]: "library_only (Inl e) \<longleftrightarrow> raised_by_library e"
  by (simp add: library_only_def)

lemma library_only_and_then:
  assumes "library_only r" and "\<And>x. library_only (f x)"
  shows "library_only (and_then r f)"
  using assms by (cases r) simp_all

lemma library_only_if [simp]:
  "library_only (if b then r else r') \<longleftrightarrow> (if b then library_only r else library_only r')"
  by simp

lemma library_only_dtype_of [simp]: "library_only (dtype_of sch n)"
  by (simp add: dtype_of_def split: option.splits)

lemma library_only_dtypes_of [simp]: "library_only (dtypes_of sch ns)"
  by (induction ns) (simp_all add: library_only_and_then)

lemma library_only_expr_dtype [simp]: "library_only (expr_dtype sch e)"
  by (induction e) (simp_all add: library_only_and_then)

lemma library_only_agg_dtype [simp]: "library_only (agg_dtype f t)"
  by (cases f) simp_all

lemma library_only_agg_plan [simp]: "library_only (agg_plan sch f e)"
  by (simp add: agg_plan_def library_only_and_then)

lemma library_only_eval_col [simp]: "library_only (eval_col t c)"
  by (cases c) (simp_all add: library_only_and_then split: prod.splits)

lemma library_only_eval_item [simp]: "library_only (eval_item t it)"
  by (simp add: eval_item_def library_only_and_then split: prod.splits)

lemma library_only_collect:
  "(\<And>r. r \<in> set rs \<Longrightarrow> library_only r) \<Longrightarrow> library_only (collect rs)"
  by (induction rs) (simp_all add: library_only_and_then)

lemma library_only_select [simp]: "library_only (select its t)"
  by (auto simp: select_def intro!: library_only_and_then library_only_collect)

lemma library_only_with_columns [simp]: "library_only (with_columns its t)"
  by (auto simp: with_columns_def intro!: library_only_and_then library_only_collect)

lemma library_only_rename [simp]: "library_only (rename m t)"
  by (simp add: rename_def Let_def split: list.splits)

lemma library_only_filter_df [simp]: "library_only (filter_df p t)"
  by (simp add: filter_df_def library_only_and_then)

lemma library_only_sort_df [simp]: "library_only (sort_df \<pi> ks t)"
  by (simp add: sort_df_def library_only_and_then)

lemma library_only_sort_descending [simp]: "library_only (sort_descending \<pi> k t)"
  by (simp add: sort_descending_def Let_def library_only_and_then)

lemma library_only_agg_item_plan [simp]: "library_only (agg_item_plan sch a)"
  by (cases a) simp

lemma library_only_group_by_agg [simp]: "library_only (group_by_agg \<pi> ks aggs t)"
  by (auto simp: group_by_agg_def Let_def intro!: library_only_and_then library_only_collect)

lemma library_only_pivot [simp]: "library_only (pivot v i on f t)"
  by (auto simp: pivot_def Let_def intro!: library_only_and_then split: prod.splits)

lemma library_only_px [simp]: "library_only (px k t x y c tmpl)"
  by (simp add: px_def split: list.splits)

lemma library_only_read_excel [simp]: "library_only (read_excel w p)"
  by (simp add: read_excel_def split: option.splits stored.splits format.splits)

lemma library_only_write_file [simp]: "library_only (write_file fmt p t w)"
  by (simp add: write_file_def)

lemma library_only_pipelines [simp]:
  "library_only (select_columns t)" "library_only (rename_columns t)"
  "library_only (derive_mwh t)" "library_only (filter_thermal t)"
  "library_only (filter_above_10 t)" "library_only (sort_by_generation \<pi> t)"
  "library_only (source_statistics \<pi> t)" "library_only (source_maximum \<pi> t)"
  "library_only (with_hour t)" "library_only (make_generation_df \<pi> t)"
  "library_only (make_generation_by_hour_source_df \<pi> t)" "library_only (pivot_by_source t)"
  "library_only (date_totals \<pi> t)" "library_only (rolling_daily_mean \<pi> t)"
  "library_only (make_output_df \<pi> t)"
  by (simp_all add: select_columns_def rename_columns_def derive_mwh_def filter_thermal_def
      filter_above_10_def sort_by_generation_def source_statistics_def source_maximum_def
      with_hour_def make_generation_df_def make_generation_by_hour_source_df_def
      pivot_by_source_def date_totals_def rolling_daily_mean_def make_output_df_def
      library_only_and_then)

lemma library_only_writes [simp]:
  "library_only (write_csv p t w)" "library_only (write_excel p t w)"
  "library_only (write_parquet p t w)"
  by (simp_all add: write_csv_def write_excel_def write_parquet_def)






subsection \<open>The pivot in closed form\<close>

lemma distinct_first_seen [simp]: "distinct (first_seen xs)"
  by (simp add: first_seen_def)

lemma set_first_seen [simp]: "set (first_seen xs) = set xs"
  by (simp add: first_seen_def)




subsection \<open>The derived column\<close>



subsection \<open>The hourly aggregation\<close>



subsection \<open>The exported table\<close>

text \<open>
  C8. On a well-formed frame with the expected columns (\<open>Date\<close> a \<open>Datetime\<close>, a
  numeric generation, a source), and whatever order the engine returns groups and equal
  keys in, \<open>output_df\<close> has the columns \<open>date\<close>, \<open>generation_gwh\<close> and
  \<open>source\<close>; no two of its rows share their (date, source) pair; the pairs of its
  rows are exactly the pairs (calendar date, source) of the input rows; and its rows
  ascend by date and, within a date, by source.
\<close>

theorem output_df_one_sorted_row_per_date_source:
  assumes "wf_frame t" and "arranges \<pi>"
    and "dtype_of (schema t) ''Date'' = Inr Datetime"
    and "dtype_of (schema t) ''Actual Generation (GWh)'' = Inr ty" and "numeric ty"
    and "dtype_of (schema t) ''Primary Source'' = Inr ts"
  shows "\<exists>out. make_output_df \<pi> t = Inr out
      \<and> columns out = [''date'', ''generation_gwh'', ''source'']
      \<and> distinct (map (\<lambda>row. (cell_of (schema out) ''date'' row, cell_of (schema out) ''source'' row))
                    (rows out))
      \<and> set (map (\<lambda>row. (cell_of (schema out) ''date'' row, cell_of (schema out) ''source'' row))
               (rows out)) =
          (\<lambda>r. (date_at (schema t) r, source_at (schema t) r)) ` set (rows t)
      \<and> sorted_wrt (\<lambda>a b. cell_of (schema out) ''date'' a < cell_of (schema out) ''date'' b
                     \<or> cell_of (schema out) ''date'' a = cell_of (schema out) ''date'' b
                       \<and> cell_of (schema out) ''source'' a \<le> cell_of (schema out) ''source'' b)
          (rows out)"
proof -
  let ?T = "\<lambda>k. agg_cells AggSum ty (map (generation_at (schema t))
              (filter (\<lambda>r. [date_at (schema t) r, source_at (schema t) r] = k) (rows t)))"
  let ?K = "remdups (map (\<lambda>r. [date_at (schema t) r, source_at (schema t) r]) (rows t))"
  let ?S = "[(''date'', Date), (''generation_gwh'', ty), (''source'', ts)]"
  let ?G = "\<lambda>k. [k ! 0, ?T k, k ! 1]"
  let ?out = "\<lparr>schema = ?S, rows = map ?G (sort ?K)\<rparr>"
  let ?pair = "\<lambda>row. (cell_of ?S ''date'' row, cell_of ?S ''source'' row)"
  let ?R = "\<lambda>a b. cell_of ?S ''date'' a < cell_of ?S ''date'' b
              \<or> cell_of ?S ''date'' a = cell_of ?S ''date'' b
                \<and> cell_of ?S ''source'' a \<le> cell_of ?S ''source'' b"
  have run: "make_output_df \<pi> t = Inr ?out"
    by (rule make_output_df_eq[OF assms])
  have K2: "\<exists>d s. k = [d, s]" if "k \<in> set (sort ?K)" for k
    using that by auto
  have pairG: "?pair (?G k) = (k ! 0, k ! 1)" for k
    by (simp add: cell_of_def)
  have pairs: "map ?pair (map ?G (sort ?K)) = map (\<lambda>k. (k ! 0, k ! 1)) (sort ?K)"
    unfolding map_map comp_def pairG ..
  have inj: "inj_on (\<lambda>k. (k ! 0, k ! 1)) (set (sort ?K))"
  proof (rule inj_onI)
    fix k k' assume "k \<in> set (sort ?K)" "k' \<in> set (sort ?K)" "(k ! 0, k ! 1) = (k' ! 0, k' ! 1)"
    with K2[of k] K2[of k'] show "k = k'" by auto
  qed
  have c1: "columns ?out = [''date'', ''generation_gwh'', ''source'']"
    by (simp add: columns_def)
  have c2: "distinct (map ?pair (rows ?out))"
    using inj by (simp only: frame.simps pairs distinct_map distinct_sort distinct_remdups simp_thms)
  have "set (map (\<lambda>k. (k ! 0, k ! 1)) (sort ?K)) =
        (\<lambda>r. (date_at (schema t) r, source_at (schema t) r)) ` set (rows t)"
    by (auto simp: image_iff)
  then have c3: "set (map ?pair (rows ?out)) =
        (\<lambda>r. (date_at (schema t) r, source_at (schema t) r)) ` set (rows t)"
    by (simp only: frame.simps pairs)
  have "sorted_wrt (\<lambda>k k'. ?R (?G k) (?G k')) (sort ?K)"
  proof (rule sorted_wrt_mono_rel[of _ "(\<le>)"])
    show "sorted_wrt (\<le>) (sort ?K)" by simp
  next
    fix k k' assume "k \<in> set (sort ?K)" "k' \<in> set (sort ?K)" "k \<le> k'"
    with K2[of k] K2[of k'] show "?R (?G k) (?G k')"
      by (auto simp: cell_of_def)
  qed
  then have c4: "sorted_wrt ?R (rows ?out)"
    by (simp only: frame.simps sorted_wrt_map)
  have s: "schema ?out = ?S" by simp
  show ?thesis
  proof (intro exI conjI)
    show "make_output_df \<pi> t = Inr ?out" by (rule run)
    show "columns ?out = [''date'', ''generation_gwh'', ''source'']" by (rule c1)
    show "distinct (map (\<lambda>row. (cell_of (schema ?out) ''date'' row,
                                  cell_of (schema ?out) ''source'' row)) (rows ?out))"
      unfolding s by (rule c2)
    show "set (map (\<lambda>row. (cell_of (schema ?out) ''date'' row,
                             cell_of (schema ?out) ''source'' row)) (rows ?out)) =
          (\<lambda>r. (date_at (schema t) r, source_at (schema t) r)) ` set (rows t)"
      unfolding s by (rule c3)
    show "sorted_wrt (\<lambda>a b. cell_of (schema ?out) ''date'' a < cell_of (schema ?out) ''date'' b
                     \<or> cell_of (schema ?out) ''date'' a = cell_of (schema ?out) ''date'' b
                       \<and> cell_of (schema ?out) ''source'' a \<le> cell_of (schema ?out) ''source'' b)
          (rows ?out)"
      unfolding s by (rule c4)
  qed
qed

theorem output_df_one_sorted_row_per_date_source_witness:
  "wf_frame sample \<and> arranges sort
   \<and> dtype_of (schema sample) ''Date'' = Inr Datetime
   \<and> dtype_of (schema sample) ''Actual Generation (GWh)'' = Inr Float64
   \<and> numeric Float64
   \<and> dtype_of (schema sample) ''Primary Source'' = Inr Utf8
   \<and> (\<exists>out. make_output_df sort sample = Inr out
        \<and> distinct (map (\<lambda>row. (cell_of (schema out) ''date'' row,
                                     cell_of (schema out) ''source'' row)) (rows out))
        \<and> rows out = [[VDate 0, VFloat 12, VStr ''Thermal''], [VDate 0, VFloat 6, VStr ''Wind''],
                       [VDate 1, VFloat 1, VStr ''Thermal''], [VDate 1, VFloat 6, VStr ''Wind'']])"
proof -
  from output_df_one_sorted_row_per_date_source
    [OF wf_sample arranges_sort sample_date sample_generation numeric_Float64 sample_source]
  obtain out where out: "make_output_df sort sample = Inr out"
    "distinct (map (\<lambda>row. (cell_of (schema out) ''date'' row,
                              cell_of (schema out) ''source'' row)) (rows out))"
    by blast
  have "make_output_df sort sample =
      Inr \<lparr>schema = [(''date'', Date), (''generation_gwh'', Float64), (''source'', Utf8)],
           rows = [[VDate 0, VFloat 12, VStr ''Thermal''], [VDate 0, VFloat 6, VStr ''Wind''],
                   [VDate 1, VFloat 1, VStr ''Thermal''], [VDate 1, VFloat 6, VStr ''Wind'']]\<rparr>"
    by code_simp
  with out(1) have "rows out =
      [[VDate 0, VFloat 12, VStr ''Thermal''], [VDate 0, VFloat 6, VStr ''Wind''],
       [VDate 1, VFloat 1, VStr ''Thermal''], [VDate 1, VFloat 6, VStr ''Wind'']]"
    by auto
  with out wf_sample arranges_sort sample_date sample_generation numeric_Float64 sample_source
  show ?thesis by blast
qed

subsection \<open>The three exports\<close>



subsection \<open>The order of the phases\<close>

text \<open>
  C2, as stated, fails. On the small input the run logs its events in the phases below:
  a transformation follows the first chart, and three more follow the second, so the
  phases are not in the order load, inspect, transform, chart, write.
\<close>

theorem phases_interleave_counterexample:
  "map phase_of (events_of (run_notebook id sample_fs)) =
     [Loading, Inspecting, Inspecting, Inspecting, Inspecting, Inspecting,
      Transforming, Transforming, Transforming, Transforming, Transforming,
      Transforming, Transforming, Transforming, Transforming, Transforming,
      Charting, Transforming, Charting, Transforming, Transforming, Transforming,
      Writing, Writing, Writing]
   \<and> \<not> in_spec_order (map phase_of (events_of (run_notebook id sample_fs)))"
  by code_simp

text \<open>
  C2, amended. Every run that reaches its end logs, in this order: the load of the
  workbook; five inspections; ten transformations; a chart; one transformation; a chart;
  three transformations; three writes. The only file interactions are the one read of
  \<open>../data/power_generation.xlsx\<close> and the writes of \<open>output.csv\<close>,
  \<open>output.xlsx\<close> and \<open>output.parquet\<close>, each of the value of \<open>output_df\<close>.
\<close>

theorem notebook_phases:
  assumes "run_notebook \<pi> w = Inr s"
  shows "map phase_of (outputs s) =
           [Loading, Inspecting, Inspecting, Inspecting, Inspecting, Inspecting,
            Transforming, Transforming, Transforming, Transforming, Transforming,
            Transforming, Transforming, Transforming, Transforming, Transforming,
            Charting, Transforming, Charting, Transforming, Transforming, Transforming,
            Writing, Writing, Writing]
       \<and> (\<exists>out. output_df s = Some out
            \<and> filter is_file_io (outputs s) =
                [ReadFile ''../data/power_generation.xlsx'', WriteFile Csv ''output.csv'' out,
                 WriteFile Xlsx ''output.xlsx'' out, WriteFile Parquet ''output.parquet'' out])"
  using run_summary[OF assms] by blast

theorem notebook_phases_witness:
  "\<exists>s. run_notebook id sample_fs = Inr s
     \<and> map phase_of (outputs s) =
           [Loading, Inspecting, Inspecting, Inspecting, Inspecting, Inspecting,
            Transforming, Transforming, Transforming, Transforming, Transforming,
            Transforming, Transforming, Transforming, Transforming, Transforming,
            Charting, Transforming, Charting, Transforming, Transforming, Transforming,
            Writing, Writing, Writing]
     \<and> length (filter is_file_io (outputs s)) = 4"
proof -
  from sample_run_succeeds obtain s where s: "run_notebook id sample_fs = Inr s"
    by (cases "run_notebook id sample_fs") auto
  from notebook_phases[OF s] show ?thesis
    using s by auto
qed

subsection \<open>The loaded table is never changed\<close>

text \<open>
  C4. After the first two cells (set-up and load) and any number of the cells that
  follow, the variable \<open>df\<close> still holds the frame that \<open>read_excel\<close> returned:
  no cell after the load assigns \<open>df\<close>, and every frame operation returns a new
  frame and leaves its argument as it was.
\<close>

theorem df_is_never_mutated:
  assumes "2 \<le> k" and "run_cells (take k notebook) \<pi> (initial w) = Inr s"
  shows "\<exists>t. read_excel w ''../data/power_generation.xlsx'' = Inr t \<and> df s = Some t"
proof -
  have "take k notebook = take 2 notebook @ take (k - 2) (drop 2 notebook)"
    using assms(1) by (metis le_add_diff_inverse take_add)
  with assms(2) obtain s2 where
    s2: "run_cells (take 2 notebook) \<pi> (initial w) = Inr s2"
    and rest: "run_cells (take (k - 2) (drop 2 notebook)) \<pi> s2 = Inr s"
    by (auto simp: run_cells_append and_then_eq_Inr)
  have "df s = df s2"
  proof (rule run_cells_keep_df[OF _ rest])
    fix c a b assume "c \<in> set (take (k - 2) (drop 2 notebook))" and "c \<pi> a = Inr b"
    then show "df b = df a"
      using later_cells_keep_df[of c \<pi> a b] by (auto dest: in_set_takeD)
  qed
  with load_binds_df[OF s2] show ?thesis by simp
qed

theorem df_is_never_mutated_witness:
  "(2::nat) \<le> 23
   \<and> (\<exists>s. run_cells (take 23 notebook) id (initial sample_fs) = Inr s \<and> df s = Some sample)"
proof -
  from sample_run_succeeds obtain s where "run_notebook id sample_fs = Inr s"
    by (cases "run_notebook id sample_fs") auto
  then have s: "run_cells (take 23 notebook) id (initial sample_fs) = Inr s"
    by (simp add: run_notebook_def notebook_def)
  have k: "(2::nat) \<le> 23" by simp
  from df_is_never_mutated[OF k s] obtain t where
    "read_excel sample_fs ''../data/power_generation.xlsx'' = Inr t" "df s = Some t"
    by blast
  moreover have "read_excel sample_fs ''../data/power_generation.xlsx'' = Inr sample"
    by (simp add: read_excel_def sample_fs_def)
  ultimately show ?thesis using s k by auto
qed

subsection \<open>Errors reach the caller as the library raised them\<close>



subsection \<open>The pivot\<close>



end
